theory Spec2Isabelle
  imports Main "HOL-Library.Word"
begin

unbundle bit_operations_syntax

section \<open>Thunar-VFS file information: data model\<close>

text \<open>
  The embedding follows \<^verbatim>\<open>thunar-vfs-info.c\<close>. Every call that leaves the file
  (the C library, GLib, libxfce4util, GDK, the MIME database and the URI module) is a field
  of the record \<open>env\<close>: the answer that call gives when the function under study makes
  it. Calls that change the world (writing a file, renaming, spawning) are also recorded,
  in the order they are issued, as a list of \<open>syscall\<close> values.
\<close>

type_synonym gchar_p = string

text \<open>\<^verbatim>\<open>struct stat\<close>, with the members the file reads.\<close>

record struct_stat =
  st_mode :: "32 word"
  st_uid :: nat
  st_gid :: nat
  st_size :: nat
  st_atime :: nat
  st_ctime :: nat
  st_mtime :: nat
  st_ino :: nat
  st_dev :: nat

text \<open>The constants of \<^verbatim>\<open><sys/stat.h>\<close> (octal in C).\<close>

definition S_IFMT :: "32 word" where "S_IFMT = 0xF000"    \<comment> \<open>0170000\<close>
definition S_IFLNK :: "32 word" where "S_IFLNK = 0xA000"  \<comment> \<open>0120000\<close>

definition S_ISLNK :: "32 word \<Rightarrow> bool" where
  "S_ISLNK m \<longleftrightarrow> m AND S_IFMT = S_IFLNK"

text \<open>
  Modelled from the spec: the enumerations of \<^verbatim>\<open>thunar-vfs-info.h\<close>, which is
  not among the sources. The file type is the numeric down-shift of the file-type bits of
  the mode, the flags are a bit set with the two members \<open>symlink\<close> and \<open>executable\<close>,
  and the hints are an array indexed by hint kind (icon, name) with a sentinel count.
\<close>

definition THUNAR_VFS_FILE_TYPE_SOCKET :: "32 word" where
  "THUNAR_VFS_FILE_TYPE_SOCKET = drop_bit 12 0xC000"     \<comment> \<open>0140000 >> 12\<close>
definition THUNAR_VFS_FILE_TYPE_SYMLINK :: "32 word" where
  "THUNAR_VFS_FILE_TYPE_SYMLINK = drop_bit 12 0xA000"    \<comment> \<open>0120000 >> 12\<close>
definition THUNAR_VFS_FILE_TYPE_REGULAR :: "32 word" where
  "THUNAR_VFS_FILE_TYPE_REGULAR = drop_bit 12 0x8000"    \<comment> \<open>0100000 >> 12\<close>
definition THUNAR_VFS_FILE_TYPE_BLOCKDEV :: "32 word" where
  "THUNAR_VFS_FILE_TYPE_BLOCKDEV = drop_bit 12 0x6000"   \<comment> \<open>0060000 >> 12\<close>
definition THUNAR_VFS_FILE_TYPE_DIRECTORY :: "32 word" where
  "THUNAR_VFS_FILE_TYPE_DIRECTORY = drop_bit 12 0x4000"  \<comment> \<open>0040000 >> 12\<close>
definition THUNAR_VFS_FILE_TYPE_CHARDEV :: "32 word" where
  "THUNAR_VFS_FILE_TYPE_CHARDEV = drop_bit 12 0x2000"    \<comment> \<open>0020000 >> 12\<close>
definition THUNAR_VFS_FILE_TYPE_FIFO :: "32 word" where
  "THUNAR_VFS_FILE_TYPE_FIFO = drop_bit 12 0x1000"       \<comment> \<open>0010000 >> 12\<close>

definition THUNAR_VFS_FILE_FLAGS_NONE :: "32 word" where
  "THUNAR_VFS_FILE_FLAGS_NONE = 0"
definition THUNAR_VFS_FILE_FLAGS_SYMLINK :: "32 word" where
  "THUNAR_VFS_FILE_FLAGS_SYMLINK = push_bit 0 1"
definition THUNAR_VFS_FILE_FLAGS_EXECUTABLE :: "32 word" where
  "THUNAR_VFS_FILE_FLAGS_EXECUTABLE = push_bit 1 1"

definition THUNAR_VFS_FILE_HINT_ICON :: nat where "THUNAR_VFS_FILE_HINT_ICON = 0"
definition THUNAR_VFS_FILE_HINT_NAME :: nat where "THUNAR_VFS_FILE_HINT_NAME = 1"
definition THUNAR_VFS_FILE_N_HINTS :: nat where "THUNAR_VFS_FILE_N_HINTS = 2"

text \<open>
  Modelled from the spec: the location abstraction (\<^verbatim>\<open>thunar-vfs-uri.c\<close> is not
  among the sources). A location carries its canonical path and has its own equality.
\<close>

datatype ThunarVfsURI = thunar_vfs_uri_new_for_path (thunar_vfs_uri_get_path: gchar_p)

definition thunar_vfs_uri_equal :: "ThunarVfsURI \<Rightarrow> ThunarVfsURI \<Rightarrow> bool" where
  "thunar_vfs_uri_equal a b \<longleftrightarrow> thunar_vfs_uri_get_path a = thunar_vfs_uri_get_path b"

text \<open>
  Modelled from the spec: the content-type record of the resolver
  (\<^verbatim>\<open>thunar-vfs-mime-info.c\<close> and \<^verbatim>\<open>thunar-vfs-mime-database.c\<close> are not among
  the sources). The resolver interns its records, one per type name, so the pointer
  comparison of two records in C is the comparison of the two values here; the fixed
  well-known types are looked up by name.
\<close>

datatype ThunarVfsMimeInfo = MimeInfo (thunar_vfs_mime_info_get_name: gchar_p)

definition thunar_vfs_mime_database_get_info :: "gchar_p \<Rightarrow> ThunarVfsMimeInfo" where
  "thunar_vfs_mime_database_get_info name = MimeInfo name"

text \<open>
  \<^verbatim>\<open>struct _ThunarVfsInfo\<close>. The field \<open>hints\<close> is \<open>None\<close> for the C pointer
  \<^verbatim>\<open>NULL\<close>, and otherwise the array of \<open>THUNAR_VFS_FILE_N_HINTS\<close> strings, each of
  which may be \<^verbatim>\<open>NULL\<close> again.
\<close>

record ThunarVfsInfo =
  type :: "32 word"
  mode :: "32 word"
  flags :: "32 word"
  uid :: nat
  gid :: nat
  size' :: nat
  atime :: nat
  mtime :: nat
  ctime :: nat
  inode :: nat
  device :: nat
  mime_info :: ThunarVfsMimeInfo
  uri :: ThunarVfsURI
  display_name :: gchar_p
  hints :: "gchar_p option list option"
  ref_count :: int

text \<open>
  A \<^verbatim>\<open>GError\<close>: domain, code and message. Errors of the domain
  \<^verbatim>\<open>G_FILE_ERROR\<close> that this file raises itself are \<open>FileError\<close>; an error set by
  a callee and handed on unchanged is \<open>Propagated\<close>.
\<close>

datatype GFileError = G_FILE_ERROR_EXIST | G_FILE_ERROR_INVAL | g_file_error_from_errno nat

datatype GError = FileError GFileError gchar_p | Propagated gchar_p

text \<open>
  How a call can fail: with an error set; through \<^verbatim>\<open>g_return_val_if_fail\<close>, which
  returns the failure value and sets no error; or through
  \<^verbatim>\<open>g_assert_not_reached\<close>, which aborts.
\<close>

datatype failure = Error GError | ReturnIfFail | AssertNotReached

datatype syscall =
    SetContents gchar_p gchar_p             \<comment> \<open>\<^verbatim>\<open>g_file_set_contents (path, data)\<close>\<close>
  | Rename gchar_p gchar_p                  \<comment> \<open>\<^verbatim>\<open>g_rename (from, to)\<close>\<close>
  | Spawn nat gchar_p "gchar_p list"        \<comment> \<open>\<^verbatim>\<open>gdk_spawn_on_screen (screen, wd, argv)\<close>\<close>

definition EEXIST :: nat where "EEXIST = 17"

record ('rc, 'kf) env =
  lstat :: "gchar_p \<Rightarrow> nat + struct_stat"      \<comment> \<open>\<open>Inl errno\<close> when the call is negative\<close>
  stat :: "gchar_p \<Rightarrow> nat + struct_stat"
  g_access_X_OK :: "gchar_p \<Rightarrow> bool"           \<comment> \<open>\<^verbatim>\<open>g_access (path, X_OK) == 0\<close>\<close>
  g_strerror :: "nat \<Rightarrow> gchar_p"
  thunar_vfs_uri_get_display_name :: "ThunarVfsURI \<Rightarrow> gchar_p"
  thunar_vfs_mime_database_get_info_for_file :: "gchar_p \<Rightarrow> gchar_p \<Rightarrow> ThunarVfsMimeInfo"
  thunar_vfs_mime_database_get_infos_for_info :: "ThunarVfsMimeInfo \<Rightarrow> ThunarVfsMimeInfo list"
  xfce_rc_simple_open :: "gchar_p \<Rightarrow> 'rc option"
  xfce_rc_read_entry :: "'rc \<Rightarrow> gchar_p option \<Rightarrow> gchar_p \<Rightarrow> gchar_p option"
  xfce_rc_read_entry_untranslated :: "'rc \<Rightarrow> gchar_p option \<Rightarrow> gchar_p \<Rightarrow> gchar_p option"
  xfce_rc_read_bool_entry :: "'rc \<Rightarrow> gchar_p option \<Rightarrow> gchar_p \<Rightarrow> bool option"
  g_utf8_validate :: "gchar_p \<Rightarrow> bool"
  g_key_file_load_from_file :: "gchar_p \<Rightarrow> GError + 'kf"
  g_key_file_has_group :: "'kf \<Rightarrow> gchar_p \<Rightarrow> bool"
  g_key_file_has_key :: "'kf \<Rightarrow> gchar_p \<Rightarrow> gchar_p \<Rightarrow> bool"
  g_key_file_set_string :: "'kf \<Rightarrow> gchar_p \<Rightarrow> gchar_p \<Rightarrow> gchar_p \<Rightarrow> 'kf"
  g_key_file_to_data :: "'kf \<Rightarrow> GError + gchar_p"
  g_get_language_names :: "gchar_p list"
  g_file_set_contents :: "gchar_p \<Rightarrow> gchar_p \<Rightarrow> GError option"
  g_filename_from_utf8 :: "gchar_p \<Rightarrow> GError + gchar_p"
  g_path_get_dirname :: "gchar_p \<Rightarrow> gchar_p"
  g_build_filename :: "gchar_p \<Rightarrow> gchar_p \<Rightarrow> gchar_p"
  g_file_test_EXISTS :: "gchar_p \<Rightarrow> bool"
  g_rename :: "gchar_p \<Rightarrow> gchar_p \<Rightarrow> nat option"     \<comment> \<open>\<open>Some errno\<close> when negative\<close>
  g_shell_quote :: "gchar_p \<Rightarrow> gchar_p"
  gdk_screen_get_default :: nat
  thunar_vfs_sysdep_parse_exec ::
    "gchar_p \<Rightarrow> ThunarVfsURI list \<Rightarrow> gchar_p option \<Rightarrow> gchar_p option \<Rightarrow> gchar_p option
       \<Rightarrow> bool \<Rightarrow> GError + gchar_p list"
  gdk_spawn_on_screen :: "nat \<Rightarrow> gchar_p \<Rightarrow> gchar_p list \<Rightarrow> GError option"

section \<open>The builder: \<^verbatim>\<open>thunar_vfs_info_new_for_uri\<close>\<close>

text \<open>
  Lines 127 to 172: the three blocks that fill the POSIX attributes. Each block sets the
  type and the flags and copies the other attributes from one \<^verbatim>\<open>struct stat\<close>:
  \<open>posix_attributes\<close> is the choice among the three blocks (type, flags and the
  buffer copied from), and \<open>set_attributes\<close> is the copy. The fields \<open>uri\<close>,
  \<open>ref_count\<close>, \<open>display_name\<close> and \<open>hints\<close> are set at lines 122 to 125, and
  \<open>mime_info\<close> in the switch that follows.
\<close>

definition posix_attributes ::
  "('rc, 'kf) env \<Rightarrow> gchar_p \<Rightarrow> struct_stat \<Rightarrow> 32 word \<times> 32 word \<times> struct_stat" where
  "posix_attributes env path lsb =
     (if \<not> S_ISLNK (st_mode lsb)
      then (drop_bit 12 (st_mode lsb AND S_IFMT), THUNAR_VFS_FILE_FLAGS_NONE, lsb)
      else (case stat env path of
              Inr sb \<Rightarrow> (drop_bit 12 (st_mode sb AND S_IFMT), THUNAR_VFS_FILE_FLAGS_SYMLINK, sb)
            | Inl errno \<Rightarrow> (THUNAR_VFS_FILE_TYPE_SYMLINK, THUNAR_VFS_FILE_FLAGS_SYMLINK, lsb)))"

definition set_attributes ::
  "ThunarVfsURI \<Rightarrow> gchar_p \<Rightarrow> 32 word \<times> 32 word \<times> struct_stat \<Rightarrow> ThunarVfsMimeInfo
     \<Rightarrow> ThunarVfsInfo" where
  "set_attributes u name attrs mi =
     (case attrs of (ty, fl, sb) \<Rightarrow>
       \<lparr> type = ty, mode = st_mode sb AND 0xFFF \<comment> \<open>07777\<close>, flags = fl,
         uid = st_uid sb, gid = st_gid sb, size' = st_size sb,
         atime = st_atime sb, mtime = st_mtime sb, ctime = st_ctime sb,
         inode = st_ino sb, device = st_dev sb,
         mime_info = mi, uri = u, display_name = name, hints = None, ref_count = 1 \<rparr>)"

text \<open>
  Lines 211 to 219: the loop over the list of content types that the database gives for
  the type of the file; it stops at the first executable or shell script.
\<close>

fun mark_executable :: "ThunarVfsMimeInfo list \<Rightarrow> 32 word \<Rightarrow> 32 word" where
  "mark_executable [] fl = fl"
| "mark_executable (lp # next) fl =
     (if thunar_vfs_mime_info_get_name lp = ''application/x-executable''
         \<or> thunar_vfs_mime_info_get_name lp = ''application/x-shellscript''
      then fl OR THUNAR_VFS_FILE_FLAGS_EXECUTABLE
      else mark_executable next fl)"

text \<open>Lines 208 to 221: the test on the permissions, the access check and the type.\<close>

definition check_executable ::
  "('rc, 'kf) env \<Rightarrow> gchar_p \<Rightarrow> ThunarVfsInfo \<Rightarrow> ThunarVfsInfo" where
  "check_executable env path info =
     (if mode info AND 0x124 \<comment> \<open>0444\<close> \<noteq> 0 \<and> g_access_X_OK env path
      then info\<lparr>flags := mark_executable
                  (thunar_vfs_mime_database_get_infos_for_info env (mime_info info))
                  (flags info)\<rparr>
      else info)"

text \<open>
  Lines 224 to 259: the hints of a \<^verbatim>\<open>.desktop\<close> file. The reads follow
  \<^verbatim>\<open>xfce_rc_set_group (rc, "Desktop Entry")\<close>, so they name that group.
\<close>

definition read_desktop_hints ::
  "('rc, 'kf) env \<Rightarrow> gchar_p \<Rightarrow> ThunarVfsInfo \<Rightarrow> ThunarVfsInfo" where
  "read_desktop_hints env path info =
     (if thunar_vfs_mime_info_get_name (mime_info info) = ''application/x-desktop''
      then (case xfce_rc_simple_open env path of
              None \<Rightarrow> info
            | Some rc \<Rightarrow>
                let group = Some ''Desktop Entry'';
                    h = replicate THUNAR_VFS_FILE_N_HINTS None;
                    h = (case xfce_rc_read_entry_untranslated env rc group ''Icon'' of
                           Some str \<Rightarrow> h[THUNAR_VFS_FILE_HINT_ICON := Some str]
                         | None \<Rightarrow> h);
                    h = (case xfce_rc_read_entry env rc group ''Name'' of
                           Some str \<Rightarrow> h[THUNAR_VFS_FILE_HINT_NAME := Some str]
                         | None \<Rightarrow> h);
                    str = (case xfce_rc_read_entry_untranslated env rc group ''Type'' of
                             Some s \<Rightarrow> s
                           | None \<Rightarrow> ''Application'');
                    info = info\<lparr>hints := Some h\<rparr>
                in if str = ''Application''
                      \<and> xfce_rc_read_entry env rc group ''Exec'' \<noteq> None
                   then info\<lparr>flags := flags info OR THUNAR_VFS_FILE_FLAGS_EXECUTABLE\<rparr>
                   else info)
      else info)"

text \<open>
  The whole function. A failing \<^verbatim>\<open>lstat\<close> gives the error and no descriptor; the
  switch on the type ends in \<^verbatim>\<open>g_assert_not_reached\<close> for a type it does not list.
  The check at line 110 is about the error location of the caller, which is taken to be
  clean here, as in the two functions below.
\<close>

definition thunar_vfs_info_new_for_uri ::
  "('rc, 'kf) env \<Rightarrow> ThunarVfsURI \<Rightarrow> failure + ThunarVfsInfo" where
  "thunar_vfs_info_new_for_uri env u =
     (let path = thunar_vfs_uri_get_path u
      in case lstat env path of
           Inl errno \<Rightarrow>
             Inl (Error (FileError (g_file_error_from_errno errno)
                    (''Failed to stat file `'' @ path @ [CHR 0x27] @ '': '' @ g_strerror env errno)))
         | Inr lsb \<Rightarrow>
             let name = thunar_vfs_uri_get_display_name env u;
                 attrs = posix_attributes env path lsb;
                 info = set_attributes u name attrs;
                 ty = fst attrs
             in if ty = THUNAR_VFS_FILE_TYPE_SOCKET
                then Inr (info (thunar_vfs_mime_database_get_info ''inode/socket''))
                else if ty = THUNAR_VFS_FILE_TYPE_SYMLINK
                then Inr (info (thunar_vfs_mime_database_get_info ''inode/symlink''))
                else if ty = THUNAR_VFS_FILE_TYPE_BLOCKDEV
                then Inr (info (thunar_vfs_mime_database_get_info ''inode/blockdevice''))
                else if ty = THUNAR_VFS_FILE_TYPE_DIRECTORY
                then Inr (info (thunar_vfs_mime_database_get_info ''inode/directory''))
                else if ty = THUNAR_VFS_FILE_TYPE_CHARDEV
                then Inr (info (thunar_vfs_mime_database_get_info ''inode/chardevice''))
                else if ty = THUNAR_VFS_FILE_TYPE_FIFO
                then Inr (info (thunar_vfs_mime_database_get_info ''inode/fifo''))
                else if ty = THUNAR_VFS_FILE_TYPE_REGULAR
                then Inr (read_desktop_hints env path (check_executable env path
                       (info (thunar_vfs_mime_database_get_info_for_file env path name))))
                else Inl AssertNotReached)"

section \<open>Equality: \<^verbatim>\<open>thunar_vfs_info_matches\<close>\<close>

text \<open>
  The two descriptors are values here, so the two checks against \<^verbatim>\<open>NULL\<close> hold;
  the two checks of the reference counts return \<^verbatim>\<open>FALSE\<close> when they fail.
\<close>

definition thunar_vfs_info_matches :: "ThunarVfsInfo \<Rightarrow> ThunarVfsInfo \<Rightarrow> bool" where
  "thunar_vfs_info_matches a b =
     (if \<not> ref_count a > 0 then False
      else if \<not> ref_count b > 0 then False
      else type a = type b
         \<and> mode a = mode b
         \<and> flags a = flags b
         \<and> uid a = uid b
         \<and> gid a = gid b
         \<and> size' a = size' b
         \<and> atime a = atime b
         \<and> mtime a = mtime b
         \<and> ctime a = ctime b
         \<and> inode a = inode b
         \<and> device a = device b
         \<and> mime_info a = mime_info b
         \<and> thunar_vfs_uri_equal (uri a) (uri b))"

section \<open>Renaming: \<^verbatim>\<open>thunar_vfs_info_rename\<close>\<close>

text \<open>
  Lines 507 to 517: the loop over the language names. It returns the key file and the
  position \<open>locale\<close> at which it stopped: the rest of the list from the matching
  language on after a \<^verbatim>\<open>break\<close>, the empty list at the terminating \<^verbatim>\<open>NULL\<close>.
\<close>

fun save_name ::
  "('rc, 'kf) env \<Rightarrow> 'kf \<Rightarrow> gchar_p list \<Rightarrow> gchar_p \<Rightarrow> 'kf \<times> gchar_p list" where
  "save_name env key_file [] name = (key_file, [])"
| "save_name env key_file (l # ls) name =
     (let key = ''Name['' @ l @ '']''
      in if g_key_file_has_key env key_file ''Desktop Entry'' key
         then (g_key_file_set_string env key_file ''Desktop Entry'' key name, l # ls)
         else save_name env key_file ls name)"

text \<open>
  The function changes the descriptor in place and returns a boolean; the model returns
  the result, the descriptor after the call and the calls issued. The file is written
  with \<^verbatim>\<open>g_file_set_contents\<close> (the branch for GLib 2.8 and later).
\<close>

definition thunar_vfs_info_rename ::
  "('rc, 'kf) env \<Rightarrow> ThunarVfsInfo \<Rightarrow> gchar_p
     \<Rightarrow> (failure + unit) \<times> ThunarVfsInfo \<times> syscall list" where
  "thunar_vfs_info_rename env info name =
     (if \<not> ref_count info > 0 then (Inl ReturnIfFail, info, [])
      else if \<not> g_utf8_validate env name then (Inl ReturnIfFail, info, [])
      else if name = [] \<or> CHR ''/'' \<in> set name
      then (Inl (Error (FileError G_FILE_ERROR_INVAL ''Invalid file name'')), info, [])
      else
        let src_path = thunar_vfs_uri_get_path (uri info)
        in if thunar_vfs_mime_info_get_name (mime_info info) = ''application/x-desktop''
           then (case g_key_file_load_from_file env src_path of
                   Inl err \<Rightarrow> (Inl (Error err), info, [])
                 | Inr key_file \<Rightarrow>
                     if \<not> g_key_file_has_group env key_file ''Desktop Entry''
                     then (Inl (Error (FileError G_FILE_ERROR_INVAL ''Invalid desktop file'')),
                           info, [])
                     else
                       let (key_file, locale) =
                             save_name env key_file (g_get_language_names env) name;
                           key_file =
                             (if locale = []
                              then g_key_file_set_string env key_file ''Desktop Entry'' ''Name'' name
                              else key_file)
                       in (case g_key_file_to_data env key_file of
                             Inl err \<Rightarrow> (Inl (Error err), info, [])
                           | Inr data \<Rightarrow>
                               (case g_file_set_contents env src_path data of
                                  Some err \<Rightarrow>
                                    (Inl (Error err), info, [SetContents src_path data])
                                | None \<Rightarrow>
                                    (Inr (),
                                     (case hints info of
                                        Some h \<Rightarrow>
                                          info\<lparr>hints :=
                                            Some (h[THUNAR_VFS_FILE_HINT_NAME := Some name])\<rparr>
                                      | None \<Rightarrow> info),
                                     [SetContents src_path data]))))
           else (case g_filename_from_utf8 env name of
                   Inl err \<Rightarrow> (Inl (Error err), info, [])
                 | Inr dst_name \<Rightarrow>
                     let dir_name = g_path_get_dirname env src_path;
                         dst_path = g_build_filename env dir_name dst_name
                     in if g_file_test_EXISTS env dst_path
                        then (Inl (Error (FileError G_FILE_ERROR_EXIST (g_strerror env EEXIST))),
                              info, [])
                        else (case g_rename env src_path dst_path of
                                Some errno \<Rightarrow>
                                  (Inl (Error (FileError (g_file_error_from_errno errno)
                                          (g_strerror env errno))),
                                   info, [Rename src_path dst_path])
                              | None \<Rightarrow>
                                  let info = info\<lparr>uri := thunar_vfs_uri_new_for_path dst_path\<rparr>;
                                      info = info\<lparr>display_name := name\<rparr>;
                                      info =
                                        (if type info = THUNAR_VFS_FILE_TYPE_REGULAR
                                         then info\<lparr>mime_info :=
                                                thunar_vfs_mime_database_get_info_for_file env
                                                  dst_path (display_name info)\<rparr>
                                         else info)
                                  in (Inr (), info, [Rename src_path dst_path]))))"

section \<open>Executing: \<^verbatim>\<open>thunar_vfs_info_execute\<close>\<close>

text \<open>
  A screen is a number, and \<open>None\<close> the \<^verbatim>\<open>NULL\<close> screen, so the check
  \<^verbatim>\<open>GDK_IS_SCREEN\<close> holds. Lines 369 to 410: the command line. The reads of the \<^verbatim>\<open>.desktop\<close> file follow no
  \<^verbatim>\<open>xfce_rc_set_group\<close>, so they are made in the group the file is opened with
  (\<open>None\<close>).
\<close>

definition command_line ::
  "('rc, 'kf) env \<Rightarrow> ThunarVfsInfo \<Rightarrow> ThunarVfsURI list \<Rightarrow> GError + gchar_p list" where
  "command_line env info uris =
     (let path = thunar_vfs_uri_get_path (uri info)
      in if thunar_vfs_mime_info_get_name (mime_info info) = ''application/x-desktop''
         then (case xfce_rc_simple_open env path of
                 Some rc \<Rightarrow>
                   (case xfce_rc_read_entry_untranslated env rc None ''Exec'' of
                      Some exec \<Rightarrow>
                        let name = xfce_rc_read_entry env rc None ''Name'';
                            icon = xfce_rc_read_entry_untranslated env rc None ''Icon'';
                            terminal = (case xfce_rc_read_bool_entry env rc None ''Terminal'' of
                                          Some b \<Rightarrow> b | None \<Rightarrow> False)
                        in thunar_vfs_sysdep_parse_exec env exec uris icon name (Some path) terminal
                    | None \<Rightarrow> Inl (FileError G_FILE_ERROR_INVAL ''No Exec field specified''))
               | None \<Rightarrow> Inl (FileError G_FILE_ERROR_INVAL ''Unable to parse file''))
         else
           let path_escaped = g_shell_quote env path;
               exec = path_escaped @ '' %F''
           in thunar_vfs_sysdep_parse_exec env exec uris None None None False)"

definition thunar_vfs_info_execute ::
  "('rc, 'kf) env \<Rightarrow> ThunarVfsInfo \<Rightarrow> nat option \<Rightarrow> ThunarVfsURI list
     \<Rightarrow> (failure + unit) \<times> syscall list" where
  "thunar_vfs_info_execute env info screen uris =
     (if \<not> ref_count info > 0 then (Inl ReturnIfFail, [])
      else
        let screen = (case screen of None \<Rightarrow> gdk_screen_get_default env | Some s \<Rightarrow> s);
            path = thunar_vfs_uri_get_path (uri info)
        in case command_line env info uris of
             Inl err \<Rightarrow> (Inl (Error err), [])
           | Inr argv \<Rightarrow>
               let working_directory =
                     g_path_get_dirname env
                       (case uris of u # _ \<Rightarrow> thunar_vfs_uri_get_path u | [] \<Rightarrow> path)
               in (case gdk_spawn_on_screen env screen working_directory argv of
                     Some err \<Rightarrow> (Inl (Error err), [Spawn screen working_directory argv])
                   | None \<Rightarrow> (Inr (), [Spawn screen working_directory argv])))"

section \<open>Sequences of calls\<close>

text \<open>
  A descriptor is changed after its construction by \<^verbatim>\<open>thunar_vfs_info_rename\<close> only.
  \<open>renames\<close> applies a sequence of such calls to one descriptor, each call with the
  world it finds and the name it is given, whether the call succeeds or fails.
\<close>

fun renames :: "ThunarVfsInfo \<Rightarrow> (('rc, 'kf) env \<times> gchar_p) list \<Rightarrow> ThunarVfsInfo" where
  "renames info [] = info"
| "renames info ((env, name) # calls) =
     renames (fst (snd (thunar_vfs_info_rename env info name))) calls"

section \<open>A small world\<close>

text \<open>
  One concrete \<open>env\<close> on which the functions are run: a directory \<^verbatim>\<open>/d\<close> with a
  shell script, a text file, a dangling symbolic link and four \<^verbatim>\<open>.desktop\<close> files.
  An opened \<^verbatim>\<open>.desktop\<close> file is the list of its keys and values; a key file is the
  list of its groups, keys and values.
\<close>

definition sample_stat :: "32 word \<Rightarrow> nat \<Rightarrow> struct_stat" where
  "sample_stat m ino =
     \<lparr> st_mode = m, st_uid = 1000, st_gid = 100, st_size = 42,
       st_atime = 3, st_ctime = 1, st_mtime = 2, st_ino = ino, st_dev = 7 \<rparr>"

definition world_nodes :: "(gchar_p \<times> struct_stat) list" where
  "world_nodes =
     [(''/d/run.sh'', sample_stat 0x81ED 11),          \<comment> \<open>regular, 0755\<close>
      (''/d/notes.txt'', sample_stat 0x81A4 12),       \<comment> \<open>regular, 0644\<close>
      (''/d/dangling'', sample_stat 0xA1FF 13),        \<comment> \<open>symbolic link, 0777\<close>
      (''/d/app.desktop'', sample_stat 0x8180 14),     \<comment> \<open>regular, 0600\<close>
      (''/d/blank.desktop'', sample_stat 0x81A4 15),   \<comment> \<open>regular, 0644\<close>
      (''/d/odd.desktop'', sample_stat 0x81ED 16),     \<comment> \<open>regular, 0755\<close>
      (''/d/locked.desktop'', sample_stat 0x8000 17)]  \<comment> \<open>regular, 0000\<close>"

definition world_entries :: "(gchar_p \<times> (gchar_p \<times> gchar_p) list) list" where
  "world_entries =
     [(''/d/app.desktop'', [(''Name'', ''App''), (''Icon'', ''app''), (''Exec'', ''app %F'')]),
      (''/d/blank.desktop'', [(''Name'', ''Blank''), (''Exec'', [])]),
      (''/d/odd.desktop'', [(''Name'', ''Odd''), (''Type'', ''Link'')])]"

definition world_key_files :: "(gchar_p \<times> ((gchar_p \<times> gchar_p) \<times> gchar_p) list) list" where
  "world_key_files =
     [(''/d/app.desktop'',
         [((''Desktop Entry'', ''Name''), ''App''),
          ((''Desktop Entry'', ''Name[fr]''), ''Appli''),
          ((''Desktop Entry'', ''Name[de]''), ''Anwendung''),
          ((''Desktop Entry'', ''Exec''), ''app %F'')]),
      (''/d/blank.desktop'',
         [((''Desktop Entry'', ''Name''), ''Blank''),
          ((''Desktop Entry'', ''Exec''), [])]),
      (''/d/odd.desktop'',
         [((''Other'', ''Name''), ''Odd'')])]"

definition dirname :: "gchar_p \<Rightarrow> gchar_p" where
  "dirname p =
     (if CHR ''/'' \<notin> set p then ''.''
      else let d = rev (drop 1 (dropWhile (\<lambda>c. c \<noteq> CHR ''/'') (rev p)))
           in if d = [] then ''/'' else d)"

definition basename :: "gchar_p \<Rightarrow> gchar_p" where
  "basename p = rev (takeWhile (\<lambda>c. c \<noteq> CHR ''/'') (rev p))"

definition extension :: "gchar_p \<Rightarrow> gchar_p" where
  "extension p = rev (takeWhile (\<lambda>c. c \<noteq> CHR ''.'') (rev p))"

definition world :: "((gchar_p \<times> gchar_p) list, ((gchar_p \<times> gchar_p) \<times> gchar_p) list) env" where
  "world =
     \<lparr> lstat = (\<lambda>p. case map_of world_nodes p of Some sb \<Rightarrow> Inr sb | None \<Rightarrow> Inl 2),
       stat = (\<lambda>p. if p = ''/d/dangling'' then Inl 2
                   else case map_of world_nodes p of Some sb \<Rightarrow> Inr sb | None \<Rightarrow> Inl 2),
       g_access_X_OK = (\<lambda>p. p = ''/d/run.sh'' \<or> p = ''/d/odd.desktop''),
       g_strerror = (\<lambda>e. if e = 2 then ''No such file or directory''
                         else if e = 17 then ''File exists'' else ''Error''),
       thunar_vfs_uri_get_display_name = (\<lambda>u. basename (thunar_vfs_uri_get_path u)),
       thunar_vfs_mime_database_get_info_for_file =
         (\<lambda>p n. MimeInfo (if extension n = ''desktop'' then ''application/x-desktop''
                          else if extension n = ''sh'' then ''application/x-shellscript''
                          else ''text/plain'')),
       thunar_vfs_mime_database_get_infos_for_info =
         (\<lambda>m. if thunar_vfs_mime_info_get_name m = ''application/x-shellscript''
               then [m, MimeInfo ''application/x-executable'', MimeInfo ''text/plain'']
               else if thunar_vfs_mime_info_get_name m = ''text/plain'' then [m]
               else [m, MimeInfo ''text/plain'']),
       xfce_rc_simple_open = map_of world_entries,
       xfce_rc_read_entry = (\<lambda>rc group key. map_of rc key),
       xfce_rc_read_entry_untranslated = (\<lambda>rc group key. map_of rc key),
       xfce_rc_read_bool_entry =
         (\<lambda>rc group key. case map_of rc key of Some v \<Rightarrow> Some (v = ''true'') | None \<Rightarrow> None),
       g_utf8_validate = list_all (\<lambda>c. of_char c < (128::nat)),
       g_key_file_load_from_file =
         (\<lambda>p. case map_of world_key_files p of
                 Some key_file \<Rightarrow> Inr key_file
               | None \<Rightarrow> Inl (Propagated ''No such file or directory'')),
       g_key_file_has_group = (\<lambda>key_file group. list_ex (\<lambda>e. fst (fst e) = group) key_file),
       g_key_file_has_key = (\<lambda>key_file group key. map_of key_file (group, key) \<noteq> None),
       g_key_file_set_string =
         (\<lambda>key_file group key v.
            if map_of key_file (group, key) = None then key_file @ [((group, key), v)]
            else map (\<lambda>e. if fst e = (group, key) then ((group, key), v) else e) key_file),
       g_key_file_to_data =
         (\<lambda>key_file. Inr (concat (map (\<lambda>e. snd (fst e) @ ''='' @ snd e @ '';'') key_file))),
       g_get_language_names = [''de_DE'', ''de'', ''C''],
       g_file_set_contents = (\<lambda>p data. None),
       g_filename_from_utf8 = Inr,
       g_path_get_dirname = dirname,
       g_build_filename = (\<lambda>d n. d @ ''/'' @ n),
       g_file_test_EXISTS = (\<lambda>p. map_of world_nodes p \<noteq> None),
       g_rename = (\<lambda>src dst. None),
       g_shell_quote = (\<lambda>p. [CHR 0x27] @ p @ [CHR 0x27]),
       gdk_screen_get_default = 0,
       thunar_vfs_sysdep_parse_exec =
         (\<lambda>exec uris icon name path terminal.
            Inr (takeWhile (\<lambda>c. c \<noteq> CHR '' '') exec # map thunar_vfs_uri_get_path uris)),
       gdk_spawn_on_screen = (\<lambda>screen wd argv. None) \<rparr>"

text \<open>The descriptors of that world, as the builder returns them.\<close>

definition sample_info ::
  "32 word \<Rightarrow> 32 word \<Rightarrow> 32 word \<Rightarrow> nat \<Rightarrow> gchar_p \<Rightarrow> gchar_p \<Rightarrow> gchar_p option list option
     \<Rightarrow> ThunarVfsInfo" where
  "sample_info ty md fl ino mime name h =
     \<lparr> type = ty, mode = md, flags = fl, uid = 1000, gid = 100, size' = 42,
       atime = 3, mtime = 2, ctime = 1, inode = ino, device = 7,
       mime_info = MimeInfo mime, uri = thunar_vfs_uri_new_for_path (''/d/'' @ name),
       display_name = name, hints = h, ref_count = 1 \<rparr>"

definition run_sh :: ThunarVfsInfo where
  "run_sh = sample_info 8 0x1ED 2 11 ''application/x-shellscript'' ''run.sh'' None"

definition notes_txt :: ThunarVfsInfo where
  "notes_txt = sample_info 8 0x1A4 0 12 ''text/plain'' ''notes.txt'' None"

definition dangling :: ThunarVfsInfo where
  "dangling = sample_info 10 0x1FF 1 13 ''inode/symlink'' ''dangling'' None"

definition app_desktop :: ThunarVfsInfo where
  "app_desktop = sample_info 8 0x180 2 14 ''application/x-desktop'' ''app.desktop''
     (Some [Some ''app'', Some ''App''])"

definition blank_desktop :: ThunarVfsInfo where
  "blank_desktop = sample_info 8 0x1A4 2 15 ''application/x-desktop'' ''blank.desktop''
     (Some [None, Some ''Blank''])"

definition locked_desktop :: ThunarVfsInfo where
  "locked_desktop = sample_info 8 0 0 17 ''application/x-desktop'' ''locked.desktop'' None"

text \<open>
  Two more descriptors of \<^verbatim>\<open>/d/app.desktop\<close>: one whose name hint has been replaced,
  one that is shown under another name.
\<close>

definition app_desktop_renamed :: ThunarVfsInfo where
  "app_desktop_renamed = app_desktop\<lparr>hints := Some [Some ''app'', Some ''Neu'']\<rparr>"

definition app_desktop_shown :: ThunarVfsInfo where
  "app_desktop_shown = app_desktop\<lparr>display_name := ''App''\<rparr>"

text \<open>
  The same world with a MIME database in which every type, the type of
  \<^verbatim>\<open>.desktop\<close> files too, is listed with the type of native executables, and the
  descriptor of \<^verbatim>\<open>/d/odd.desktop\<close> there.
\<close>

definition odd_world ::
  "((gchar_p \<times> gchar_p) list, ((gchar_p \<times> gchar_p) \<times> gchar_p) list) env" where
  "odd_world = world\<lparr>thunar_vfs_mime_database_get_infos_for_info :=
                        (\<lambda>m. [m, MimeInfo ''application/x-executable''])\<rparr>"

definition odd_desktop :: ThunarVfsInfo where
  "odd_desktop = sample_info 8 0x1ED 2 16 ''application/x-desktop'' ''odd.desktop''
     (Some [None, Some ''Odd''])"

section \<open>Facts about the parts of the builder\<close>

lemma exec_bit_or:
  "(fl OR THUNAR_VFS_FILE_FLAGS_EXECUTABLE) AND THUNAR_VFS_FILE_FLAGS_EXECUTABLE \<noteq> 0"
  by (simp add: THUNAR_VFS_FILE_FLAGS_EXECUTABLE_def word_ao_absorbs)

lemma exec_nonzero: "THUNAR_VFS_FILE_FLAGS_EXECUTABLE \<noteq> 0"
  by (simp add: THUNAR_VFS_FILE_FLAGS_EXECUTABLE_def)

lemma file_type_values:
  "THUNAR_VFS_FILE_TYPE_SOCKET = 12" "THUNAR_VFS_FILE_TYPE_SYMLINK = 10"
  "THUNAR_VFS_FILE_TYPE_REGULAR = 8" "THUNAR_VFS_FILE_TYPE_BLOCKDEV = 6"
  "THUNAR_VFS_FILE_TYPE_DIRECTORY = 4" "THUNAR_VFS_FILE_TYPE_CHARDEV = 2"
  "THUNAR_VFS_FILE_TYPE_FIFO = 1"
  by (simp_all add: THUNAR_VFS_FILE_TYPE_SOCKET_def THUNAR_VFS_FILE_TYPE_SYMLINK_def
      THUNAR_VFS_FILE_TYPE_REGULAR_def THUNAR_VFS_FILE_TYPE_BLOCKDEV_def
      THUNAR_VFS_FILE_TYPE_DIRECTORY_def THUNAR_VFS_FILE_TYPE_CHARDEV_def
      THUNAR_VFS_FILE_TYPE_FIFO_def drop_bit_eq_div)

lemma flag_values:
  "THUNAR_VFS_FILE_FLAGS_NONE = 0" "THUNAR_VFS_FILE_FLAGS_SYMLINK = 1"
  "THUNAR_VFS_FILE_FLAGS_EXECUTABLE = 2"
  by (simp_all add: THUNAR_VFS_FILE_FLAGS_NONE_def THUNAR_VFS_FILE_FLAGS_SYMLINK_def
      THUNAR_VFS_FILE_FLAGS_EXECUTABLE_def)

lemma mark_executable_iff:
  "mark_executable ms fl AND THUNAR_VFS_FILE_FLAGS_EXECUTABLE \<noteq> 0 \<longleftrightarrow>
     fl AND THUNAR_VFS_FILE_FLAGS_EXECUTABLE \<noteq> 0
     \<or> (\<exists>m \<in> set ms. thunar_vfs_mime_info_get_name m = ''application/x-executable''
                      \<or> thunar_vfs_mime_info_get_name m = ''application/x-shellscript'')"
  by (induction ms) (auto simp: exec_bit_or exec_nonzero)

lemma posix_flags_not_executable:
  "fst (snd (posix_attributes env path lsb)) AND THUNAR_VFS_FILE_FLAGS_EXECUTABLE = 0"
  by (simp add: posix_attributes_def flag_values split: sum.splits)

lemma set_attributes_simps [simp]:
  "type (set_attributes u n attrs mi) = fst attrs"
  "flags (set_attributes u n attrs mi) = fst (snd attrs)"
  "mode (set_attributes u n attrs mi) = st_mode (snd (snd attrs)) AND 0xFFF"
  "mime_info (set_attributes u n attrs mi) = mi"
  "hints (set_attributes u n attrs mi) = None"
  "uri (set_attributes u n attrs mi) = u"
  "display_name (set_attributes u n attrs mi) = n"
  "ref_count (set_attributes u n attrs mi) = 1"
  by (simp_all add: set_attributes_def split: prod.splits)

lemma check_executable_fields [simp]:
  "type (check_executable env path i) = type i"
  "mode (check_executable env path i) = mode i"
  "mime_info (check_executable env path i) = mime_info i"
  "hints (check_executable env path i) = hints i"
  by (simp_all add: check_executable_def)

lemma check_executable_flag:
  "flags (check_executable env path i) AND THUNAR_VFS_FILE_FLAGS_EXECUTABLE \<noteq> 0 \<longleftrightarrow>
     flags i AND THUNAR_VFS_FILE_FLAGS_EXECUTABLE \<noteq> 0
     \<or> (mode i AND 0x124 \<noteq> 0 \<and> g_access_X_OK env path
        \<and> (\<exists>m \<in> set (thunar_vfs_mime_database_get_infos_for_info env (mime_info i)).
              thunar_vfs_mime_info_get_name m = ''application/x-executable''
            \<or> thunar_vfs_mime_info_get_name m = ''application/x-shellscript''))"
  by (simp add: check_executable_def mark_executable_iff)

lemma read_desktop_hints_fields [simp]:
  "type (read_desktop_hints env path i) = type i"
  "mode (read_desktop_hints env path i) = mode i"
  "mime_info (read_desktop_hints env path i) = mime_info i"
  by (simp_all add: read_desktop_hints_def Let_def split: option.splits)

lemma read_desktop_hints_flag:
  "flags (read_desktop_hints env path i) AND THUNAR_VFS_FILE_FLAGS_EXECUTABLE \<noteq> 0 \<longleftrightarrow>
     flags i AND THUNAR_VFS_FILE_FLAGS_EXECUTABLE \<noteq> 0
     \<or> (thunar_vfs_mime_info_get_name (mime_info i) = ''application/x-desktop''
        \<and> (\<exists>rc. xfce_rc_simple_open env path = Some rc
             \<and> (xfce_rc_read_entry_untranslated env rc (Some ''Desktop Entry'') ''Type'' = None
                \<or> xfce_rc_read_entry_untranslated env rc (Some ''Desktop Entry'') ''Type''
                    = Some ''Application'')
             \<and> xfce_rc_read_entry env rc (Some ''Desktop Entry'') ''Exec'' \<noteq> None))"
  by (auto simp add: read_desktop_hints_def Let_def exec_bit_or exec_nonzero
      split: option.splits)

lemma read_desktop_hints_hints:
  "hints i = None \<Longrightarrow> hints (read_desktop_hints env path i) \<noteq> None \<longleftrightarrow>
     thunar_vfs_mime_info_get_name (mime_info i) = ''application/x-desktop''
     \<and> xfce_rc_simple_open env path \<noteq> None"
  by (auto simp: read_desktop_hints_def Let_def split: option.splits)

lemma new_for_uri_regular:
  assumes "thunar_vfs_info_new_for_uri env u = Inr info"
    and "type info = THUNAR_VFS_FILE_TYPE_REGULAR"
  obtains lsb where "lstat env (thunar_vfs_uri_get_path u) = Inr lsb"
    and "info = read_desktop_hints env (thunar_vfs_uri_get_path u)
           (check_executable env (thunar_vfs_uri_get_path u)
             (set_attributes u (thunar_vfs_uri_get_display_name env u)
                (posix_attributes env (thunar_vfs_uri_get_path u) lsb)
                (thunar_vfs_mime_database_get_info_for_file env (thunar_vfs_uri_get_path u)
                   (thunar_vfs_uri_get_display_name env u))))"
  using assms
  by (auto simp: thunar_vfs_info_new_for_uri_def Let_def file_type_values
      split: sum.splits if_splits)

lemma new_for_uri_not_regular:
  assumes "thunar_vfs_info_new_for_uri env u = Inr info"
    and "type info \<noteq> THUNAR_VFS_FILE_TYPE_REGULAR"
  shows "hints info = None"
  using assms
  by (auto simp: thunar_vfs_info_new_for_uri_def Let_def file_type_values
      split: sum.splits if_splits)

lemma new_for_uri_hints:
  assumes "thunar_vfs_info_new_for_uri env u = Inr info"
  shows "hints info \<noteq> None \<longleftrightarrow>
     type info = THUNAR_VFS_FILE_TYPE_REGULAR
     \<and> thunar_vfs_mime_info_get_name (mime_info info) = ''application/x-desktop''
     \<and> xfce_rc_simple_open env (thunar_vfs_uri_get_path u) \<noteq> None"
proof (cases "type info = THUNAR_VFS_FILE_TYPE_REGULAR")
  case False
  with assms show ?thesis by (simp add: new_for_uri_not_regular)
next
  case True
  with assms obtain lsb where
    info: "info = read_desktop_hints env (thunar_vfs_uri_get_path u)
           (check_executable env (thunar_vfs_uri_get_path u)
             (set_attributes u (thunar_vfs_uri_get_display_name env u)
                (posix_attributes env (thunar_vfs_uri_get_path u) lsb)
                (thunar_vfs_mime_database_get_info_for_file env (thunar_vfs_uri_get_path u)
                   (thunar_vfs_uri_get_display_name env u))))"
    by (rule new_for_uri_regular)
  let ?i = "check_executable env (thunar_vfs_uri_get_path u)
             (set_attributes u (thunar_vfs_uri_get_display_name env u)
                (posix_attributes env (thunar_vfs_uri_get_path u) lsb)
                (thunar_vfs_mime_database_get_info_for_file env (thunar_vfs_uri_get_path u)
                   (thunar_vfs_uri_get_display_name env u)))"
  have "hints ?i = None" by simp
  from read_desktop_hints_hints [OF this, of env "thunar_vfs_uri_get_path u"] True
  show ?thesis
    unfolding info by simp
qed

section \<open>The builder in the small world\<close>

lemma new_hints: "replicate THUNAR_VFS_FILE_N_HINTS x = [x, x]"
  by (simp add: THUNAR_VFS_FILE_N_HINTS_def numeral_2_eq_2)

lemmas builder_defs =
  thunar_vfs_info_new_for_uri_def posix_attributes_def set_attributes_def
  check_executable_def read_desktop_hints_def thunar_vfs_mime_database_get_info_def
  S_ISLNK_def S_IFMT_def S_IFLNK_def file_type_values flag_values
  new_hints THUNAR_VFS_FILE_HINT_ICON_def THUNAR_VFS_FILE_HINT_NAME_def
  Let_def

lemmas world_defs =
  world_def world_nodes_def world_entries_def world_key_files_def sample_stat_def
  sample_info_def basename_def extension_def dirname_def

lemma world_run_sh:
  "thunar_vfs_info_new_for_uri world (thunar_vfs_uri_new_for_path ''/d/run.sh'') = Inr run_sh"
  by (simp add: builder_defs world_defs run_sh_def drop_bit_eq_div)

lemma world_notes_txt:
  "thunar_vfs_info_new_for_uri world (thunar_vfs_uri_new_for_path ''/d/notes.txt'')
     = Inr notes_txt"
  by (simp add: builder_defs world_defs notes_txt_def drop_bit_eq_div)

lemma world_dangling:
  "thunar_vfs_info_new_for_uri world (thunar_vfs_uri_new_for_path ''/d/dangling'')
     = Inr dangling"
  by (simp add: builder_defs world_defs dangling_def drop_bit_eq_div)

lemma world_app_desktop:
  "thunar_vfs_info_new_for_uri world (thunar_vfs_uri_new_for_path ''/d/app.desktop'')
     = Inr app_desktop"
  by (simp add: builder_defs world_defs app_desktop_def drop_bit_eq_div)

lemma world_blank_desktop:
  "thunar_vfs_info_new_for_uri world (thunar_vfs_uri_new_for_path ''/d/blank.desktop'')
     = Inr blank_desktop"
  by (simp add: builder_defs world_defs blank_desktop_def drop_bit_eq_div)

lemma world_locked_desktop:
  "thunar_vfs_info_new_for_uri world (thunar_vfs_uri_new_for_path ''/d/locked.desktop'')
     = Inr locked_desktop"
  by (simp add: builder_defs world_defs locked_desktop_def drop_bit_eq_div)

lemma odd_world_odd_desktop:
  "thunar_vfs_info_new_for_uri odd_world (thunar_vfs_uri_new_for_path ''/d/odd.desktop'')
     = Inr odd_desktop"
  by (simp add: builder_defs world_defs odd_world_def odd_desktop_def drop_bit_eq_div)

section \<open>Claims about the builder\<close>

text \<open>
  C1. For a descriptor built from a regular file, the \<open>executable\<close> flag is set by the
  test on the permissions exactly when (a) one of the three read bits of the mode is set
  and the access check for execution succeeds on the path, and (b) the list of content
  types that the database gives for the type of the file (the type and the types it
  generalises to) holds \<^verbatim>\<open>application/x-executable\<close> or
  \<^verbatim>\<open>application/x-shellscript\<close>. The only other way to the flag is the test on
  the \<^verbatim>\<open>.desktop\<close> entry, the second disjunct; a regular file that meets (a) and not
  (b), and is not such a launcher, does not have the flag.
\<close>

theorem executable_by_permission_test:
  assumes "thunar_vfs_info_new_for_uri env u = Inr info"
    and "type info = THUNAR_VFS_FILE_TYPE_REGULAR"
  shows "flags info AND THUNAR_VFS_FILE_FLAGS_EXECUTABLE \<noteq> 0 \<longleftrightarrow>
       (mode info AND 0x124 \<noteq> 0 \<and> g_access_X_OK env (thunar_vfs_uri_get_path u)
        \<and> (\<exists>m \<in> set (thunar_vfs_mime_database_get_infos_for_info env (mime_info info)).
              thunar_vfs_mime_info_get_name m = ''application/x-executable''
            \<or> thunar_vfs_mime_info_get_name m = ''application/x-shellscript''))
     \<or> (thunar_vfs_mime_info_get_name (mime_info info) = ''application/x-desktop''
        \<and> (\<exists>rc. xfce_rc_simple_open env (thunar_vfs_uri_get_path u) = Some rc
             \<and> (xfce_rc_read_entry_untranslated env rc (Some ''Desktop Entry'') ''Type'' = None
                \<or> xfce_rc_read_entry_untranslated env rc (Some ''Desktop Entry'') ''Type''
                    = Some ''Application'')
             \<and> xfce_rc_read_entry env rc (Some ''Desktop Entry'') ''Exec'' \<noteq> None))"
proof -
  from assms obtain lsb where
    info: "info = read_desktop_hints env (thunar_vfs_uri_get_path u)
           (check_executable env (thunar_vfs_uri_get_path u)
             (set_attributes u (thunar_vfs_uri_get_display_name env u)
                (posix_attributes env (thunar_vfs_uri_get_path u) lsb)
                (thunar_vfs_mime_database_get_info_for_file env (thunar_vfs_uri_get_path u)
                   (thunar_vfs_uri_get_display_name env u))))"
    by (rule new_for_uri_regular)
  show ?thesis
    unfolding info
    by (simp add: read_desktop_hints_flag check_executable_flag posix_flags_not_executable)
qed

theorem executable_by_permission_test_witness:
  "thunar_vfs_info_new_for_uri world (thunar_vfs_uri_new_for_path ''/d/run.sh'') = Inr run_sh
   \<and> type run_sh = THUNAR_VFS_FILE_TYPE_REGULAR
   \<and> flags run_sh AND THUNAR_VFS_FILE_FLAGS_EXECUTABLE \<noteq> 0
   \<and> thunar_vfs_info_new_for_uri world (thunar_vfs_uri_new_for_path ''/d/notes.txt'')
       = Inr notes_txt
   \<and> type notes_txt = THUNAR_VFS_FILE_TYPE_REGULAR
   \<and> flags notes_txt AND THUNAR_VFS_FILE_FLAGS_EXECUTABLE = 0"
proof -
  have t: "type run_sh = THUNAR_VFS_FILE_TYPE_REGULAR"
    by (simp add: run_sh_def sample_info_def file_type_values)
  have "mode run_sh AND 0x124 \<noteq> 0
      \<and> g_access_X_OK world (thunar_vfs_uri_get_path (thunar_vfs_uri_new_for_path ''/d/run.sh''))
      \<and> (\<exists>m \<in> set (thunar_vfs_mime_database_get_infos_for_info world (mime_info run_sh)).
              thunar_vfs_mime_info_get_name m = ''application/x-executable''
            \<or> thunar_vfs_mime_info_get_name m = ''application/x-shellscript'')"
    by (simp add: run_sh_def sample_info_def world_def)
  with executable_by_permission_test [OF world_run_sh t]
  have x: "flags run_sh AND THUNAR_VFS_FILE_FLAGS_EXECUTABLE \<noteq> 0"
    by blast
  have t': "type notes_txt = THUNAR_VFS_FILE_TYPE_REGULAR"
    by (simp add: notes_txt_def sample_info_def file_type_values)
  have "\<not> g_access_X_OK world (thunar_vfs_uri_get_path (thunar_vfs_uri_new_for_path ''/d/notes.txt''))"
    and "thunar_vfs_mime_info_get_name (mime_info notes_txt) \<noteq> ''application/x-desktop''"
    by (simp_all add: notes_txt_def sample_info_def world_def)
  with executable_by_permission_test [OF world_notes_txt t']
  have y: "flags notes_txt AND THUNAR_VFS_FILE_FLAGS_EXECUTABLE = 0"
    by blast
  from world_run_sh t x world_notes_txt t' y show ?thesis
    by blast
qed

text \<open>
  C2. For a location that is a symbolic link (the link-level \<^verbatim>\<open>lstat\<close> succeeds and
  reports a link) whose target-following \<^verbatim>\<open>stat\<close> fails, the builder returns a
  descriptor and no error; its type is the symlink type, its flags include \<open>symlink\<close>,
  and the mode (its permission bits), the owner, the group, the size, the three times, the
  inode and the device are those of the link-level buffer.
\<close>

theorem dangling_symlink_described:
  assumes "lstat env (thunar_vfs_uri_get_path u) = Inr lsb"
    and "S_ISLNK (st_mode lsb)"
    and "stat env (thunar_vfs_uri_get_path u) = Inl errno"
  shows "\<exists>info. thunar_vfs_info_new_for_uri env u = Inr info
     \<and> type info = THUNAR_VFS_FILE_TYPE_SYMLINK
     \<and> flags info AND THUNAR_VFS_FILE_FLAGS_SYMLINK \<noteq> 0
     \<and> mode info = st_mode lsb AND 0xFFF
     \<and> uid info = st_uid lsb \<and> gid info = st_gid lsb \<and> size' info = st_size lsb
     \<and> atime info = st_atime lsb \<and> ctime info = st_ctime lsb \<and> mtime info = st_mtime lsb
     \<and> inode info = st_ino lsb \<and> device info = st_dev lsb"
  using assms
  by (simp add: thunar_vfs_info_new_for_uri_def posix_attributes_def set_attributes_def
      file_type_values flag_values)

theorem dangling_symlink_described_witness:
  "lstat world ''/d/dangling'' = Inr (sample_stat 0xA1FF 13)
   \<and> S_ISLNK (st_mode (sample_stat 0xA1FF 13))
   \<and> stat world ''/d/dangling'' = Inl 2
   \<and> thunar_vfs_info_new_for_uri world (thunar_vfs_uri_new_for_path ''/d/dangling'')
       = Inr dangling
   \<and> type dangling = THUNAR_VFS_FILE_TYPE_SYMLINK
   \<and> flags dangling AND THUNAR_VFS_FILE_FLAGS_SYMLINK \<noteq> 0
   \<and> inode dangling = 13 \<and> size' dangling = 42"
proof -
  have l: "lstat world (thunar_vfs_uri_get_path (thunar_vfs_uri_new_for_path ''/d/dangling''))
      = Inr (sample_stat 0xA1FF 13)"
    by (simp add: world_def world_nodes_def)
  have k: "S_ISLNK (st_mode (sample_stat 0xA1FF 13))"
    by (simp add: S_ISLNK_def S_IFMT_def S_IFLNK_def sample_stat_def)
  have s: "stat world (thunar_vfs_uri_get_path (thunar_vfs_uri_new_for_path ''/d/dangling''))
      = Inl 2"
    by (simp add: world_def)
  from dangling_symlink_described [OF l k s] world_dangling
  have "type dangling = THUNAR_VFS_FILE_TYPE_SYMLINK
      \<and> flags dangling AND THUNAR_VFS_FILE_FLAGS_SYMLINK \<noteq> 0
      \<and> inode dangling = 13 \<and> size' dangling = 42"
    by (simp add: sample_stat_def)
  with l k s world_dangling show ?thesis
    by simp
qed

text \<open>
  C3, as stated, fails at two inputs. In the small world the readable launcher
  \<^verbatim>\<open>/d/blank.desktop\<close> has an \<^verbatim>\<open>Exec\<close> entry whose value is empty, no
  \<^verbatim>\<open>Type\<close> entry, and no execute access: the flag is set, since line 251 asks for an
  entry that is not \<^verbatim>\<open>NULL\<close>, not for one that is not empty. With a MIME database
  that lists the launcher type with the type of native executables, the readable launcher
  \<^verbatim>\<open>/d/odd.desktop\<close> (mode 0755, execute access, \<^verbatim>\<open>Type=Link\<close>, no
  \<^verbatim>\<open>Exec\<close>) has the flag too: the test on the permissions at lines 208 to 221 runs
  for every regular file, launchers included.
\<close>

theorem launcher_flag_counterexample:
  "thunar_vfs_info_new_for_uri world (thunar_vfs_uri_new_for_path ''/d/blank.desktop'')
       = Inr blank_desktop
   \<and> type blank_desktop = THUNAR_VFS_FILE_TYPE_REGULAR
   \<and> thunar_vfs_mime_info_get_name (mime_info blank_desktop) = ''application/x-desktop''
   \<and> xfce_rc_simple_open world ''/d/blank.desktop'' = Some [(''Name'', ''Blank''), (''Exec'', [])]
   \<and> xfce_rc_read_entry world [(''Name'', ''Blank''), (''Exec'', [])]
        (Some ''Desktop Entry'') ''Exec'' = Some []
   \<and> \<not> g_access_X_OK world ''/d/blank.desktop''
   \<and> flags blank_desktop AND THUNAR_VFS_FILE_FLAGS_EXECUTABLE \<noteq> 0
   \<and> thunar_vfs_info_new_for_uri odd_world (thunar_vfs_uri_new_for_path ''/d/odd.desktop'')
       = Inr odd_desktop
   \<and> type odd_desktop = THUNAR_VFS_FILE_TYPE_REGULAR
   \<and> thunar_vfs_mime_info_get_name (mime_info odd_desktop) = ''application/x-desktop''
   \<and> xfce_rc_simple_open odd_world ''/d/odd.desktop''
       = Some [(''Name'', ''Odd''), (''Type'', ''Link'')]
   \<and> xfce_rc_read_entry_untranslated odd_world [(''Name'', ''Odd''), (''Type'', ''Link'')]
        (Some ''Desktop Entry'') ''Type'' = Some ''Link''
   \<and> xfce_rc_read_entry odd_world [(''Name'', ''Odd''), (''Type'', ''Link'')]
        (Some ''Desktop Entry'') ''Exec'' = None
   \<and> flags odd_desktop AND THUNAR_VFS_FILE_FLAGS_EXECUTABLE \<noteq> 0"
proof -
  have blank: "type blank_desktop = THUNAR_VFS_FILE_TYPE_REGULAR
      \<and> thunar_vfs_mime_info_get_name (mime_info blank_desktop) = ''application/x-desktop''
      \<and> flags blank_desktop AND THUNAR_VFS_FILE_FLAGS_EXECUTABLE \<noteq> 0"
    by (simp add: blank_desktop_def sample_info_def file_type_values flag_values)
  have odd: "type odd_desktop = THUNAR_VFS_FILE_TYPE_REGULAR
      \<and> thunar_vfs_mime_info_get_name (mime_info odd_desktop) = ''application/x-desktop''
      \<and> flags odd_desktop AND THUNAR_VFS_FILE_FLAGS_EXECUTABLE \<noteq> 0"
    by (simp add: odd_desktop_def sample_info_def file_type_values flag_values)
  have entries: "xfce_rc_simple_open world ''/d/blank.desktop''
        = Some [(''Name'', ''Blank''), (''Exec'', [])]
      \<and> xfce_rc_read_entry world [(''Name'', ''Blank''), (''Exec'', [])]
           (Some ''Desktop Entry'') ''Exec'' = Some []
      \<and> \<not> g_access_X_OK world ''/d/blank.desktop''
      \<and> xfce_rc_simple_open odd_world ''/d/odd.desktop''
           = Some [(''Name'', ''Odd''), (''Type'', ''Link'')]
      \<and> xfce_rc_read_entry_untranslated odd_world [(''Name'', ''Odd''), (''Type'', ''Link'')]
           (Some ''Desktop Entry'') ''Type'' = Some ''Link''
      \<and> xfce_rc_read_entry odd_world [(''Name'', ''Odd''), (''Type'', ''Link'')]
           (Some ''Desktop Entry'') ''Exec'' = None"
    by (simp add: world_def world_entries_def odd_world_def)
  from world_blank_desktop odd_world_odd_desktop blank odd entries show ?thesis
    by blast
qed

text \<open>
  C3, amended. For a descriptor built from a regular file whose content type is exactly the
  launcher type and whose launcher file is readable, the \<open>executable\<close> flag is set
  exactly when the \<^verbatim>\<open>Type\<close> entry is absent or equals \<^verbatim>\<open>Application\<close> and an
  \<^verbatim>\<open>Exec\<close> entry is present (its value may be empty), or the test on the permissions
  of C1 passes. So a launcher that meets the first condition has the flag whatever its
  permission bits and the access check say.
\<close>

theorem launcher_executable_flag:
  assumes "thunar_vfs_info_new_for_uri env u = Inr info"
    and "type info = THUNAR_VFS_FILE_TYPE_REGULAR"
    and "thunar_vfs_mime_info_get_name (mime_info info) = ''application/x-desktop''"
    and "xfce_rc_simple_open env (thunar_vfs_uri_get_path u) = Some rc"
  shows "flags info AND THUNAR_VFS_FILE_FLAGS_EXECUTABLE \<noteq> 0 \<longleftrightarrow>
       ((xfce_rc_read_entry_untranslated env rc (Some ''Desktop Entry'') ''Type'' = None
          \<or> xfce_rc_read_entry_untranslated env rc (Some ''Desktop Entry'') ''Type''
              = Some ''Application'')
        \<and> xfce_rc_read_entry env rc (Some ''Desktop Entry'') ''Exec'' \<noteq> None)
     \<or> (mode info AND 0x124 \<noteq> 0 \<and> g_access_X_OK env (thunar_vfs_uri_get_path u)
        \<and> (\<exists>m \<in> set (thunar_vfs_mime_database_get_infos_for_info env (mime_info info)).
              thunar_vfs_mime_info_get_name m = ''application/x-executable''
            \<or> thunar_vfs_mime_info_get_name m = ''application/x-shellscript''))"
proof -
  from assms(1,2) obtain lsb where
    info: "info = read_desktop_hints env (thunar_vfs_uri_get_path u)
           (check_executable env (thunar_vfs_uri_get_path u)
             (set_attributes u (thunar_vfs_uri_get_display_name env u)
                (posix_attributes env (thunar_vfs_uri_get_path u) lsb)
                (thunar_vfs_mime_database_get_info_for_file env (thunar_vfs_uri_get_path u)
                   (thunar_vfs_uri_get_display_name env u))))"
    by (rule new_for_uri_regular)
  from assms(3) have mi: "thunar_vfs_mime_info_get_name
      (thunar_vfs_mime_database_get_info_for_file env (thunar_vfs_uri_get_path u)
         (thunar_vfs_uri_get_display_name env u)) = ''application/x-desktop''"
    unfolding info by simp
  show ?thesis
    unfolding info using mi assms(4)
    by (auto simp add: read_desktop_hints_flag check_executable_flag
        posix_flags_not_executable)
qed

theorem launcher_executable_flag_witness:
  "thunar_vfs_info_new_for_uri world (thunar_vfs_uri_new_for_path ''/d/app.desktop'')
       = Inr app_desktop
   \<and> type app_desktop = THUNAR_VFS_FILE_TYPE_REGULAR
   \<and> thunar_vfs_mime_info_get_name (mime_info app_desktop) = ''application/x-desktop''
   \<and> xfce_rc_simple_open world ''/d/app.desktop''
       = Some [(''Name'', ''App''), (''Icon'', ''app''), (''Exec'', ''app %F'')]
   \<and> \<not> g_access_X_OK world ''/d/app.desktop''
   \<and> flags app_desktop AND THUNAR_VFS_FILE_FLAGS_EXECUTABLE \<noteq> 0"
proof -
  let ?rc = "[(''Name'', ''App''), (''Icon'', ''app''), (''Exec'', ''app %F'')]"
  have t: "type app_desktop = THUNAR_VFS_FILE_TYPE_REGULAR"
    by (simp add: app_desktop_def sample_info_def file_type_values)
  have m: "thunar_vfs_mime_info_get_name (mime_info app_desktop) = ''application/x-desktop''"
    by (simp add: app_desktop_def sample_info_def)
  have r: "xfce_rc_simple_open world
      (thunar_vfs_uri_get_path (thunar_vfs_uri_new_for_path ''/d/app.desktop'')) = Some ?rc"
    by (simp add: world_def world_entries_def)
  have e: "xfce_rc_read_entry_untranslated world ?rc (Some ''Desktop Entry'') ''Type'' = None
      \<and> xfce_rc_read_entry world ?rc (Some ''Desktop Entry'') ''Exec'' \<noteq> None"
    by (simp add: world_def)
  have p: "\<not> g_access_X_OK world ''/d/app.desktop''"
    by (simp add: world_def)
  from launcher_executable_flag [OF world_app_desktop t m r] e
  have "flags app_desktop AND THUNAR_VFS_FILE_FLAGS_EXECUTABLE \<noteq> 0"
    by blast
  with world_app_desktop t m r p show ?thesis
    by simp
qed

section \<open>Claims about equality\<close>

lemma uri_equal_iff: "thunar_vfs_uri_equal x y \<longleftrightarrow> x = y"
  by (cases x; cases y) (simp add: thunar_vfs_uri_equal_def)

text \<open>
  C4, as stated, fails: the comparison at lines 661 to 673 reads neither
  \<open>display_name\<close> nor \<open>hints\<close>. Two live descriptors of \<^verbatim>\<open>/d/app.desktop\<close> that
  differ in the name hint match, and so do two that differ in the display name.
\<close>

theorem matches_counterexample:
  "0 < ref_count app_desktop \<and> 0 < ref_count app_desktop_renamed
   \<and> 0 < ref_count app_desktop_shown
   \<and> thunar_vfs_info_matches app_desktop app_desktop_renamed
   \<and> hints app_desktop \<noteq> hints app_desktop_renamed
   \<and> thunar_vfs_info_matches app_desktop app_desktop_shown
   \<and> display_name app_desktop \<noteq> display_name app_desktop_shown"
  by (simp add: thunar_vfs_info_matches_def app_desktop_renamed_def app_desktop_shown_def
      app_desktop_def sample_info_def thunar_vfs_uri_equal_def)

text \<open>
  C4, amended. Two live descriptors match if and only if they agree on every attribute
  other than \<open>display_name\<close> and \<open>hints\<close> (and the reference count): on the type, the
  permission bits, the flags, the owner, the group, the size, the three times, the inode,
  the device, the content type (by identity) and the location (by its own equality).
\<close>

theorem matches_iff:
  assumes "0 < ref_count a" and "0 < ref_count b"
  shows "thunar_vfs_info_matches a b \<longleftrightarrow>
     a\<lparr>display_name := display_name b, hints := hints b, ref_count := ref_count b\<rparr> = b"
  using assms
  by (cases a; cases b) (auto simp: thunar_vfs_info_matches_def uri_equal_iff)

theorem matches_iff_witness:
  "0 < ref_count app_desktop \<and> 0 < ref_count app_desktop_renamed
   \<and> thunar_vfs_info_matches app_desktop app_desktop_renamed
   \<and> 0 < ref_count run_sh \<and> 0 < ref_count notes_txt
   \<and> \<not> thunar_vfs_info_matches run_sh notes_txt"
proof -
  have l: "0 < ref_count app_desktop" "0 < ref_count app_desktop_renamed"
    "0 < ref_count run_sh" "0 < ref_count notes_txt"
    by (simp_all add: app_desktop_renamed_def app_desktop_def run_sh_def notes_txt_def
        sample_info_def)
  have "app_desktop\<lparr>display_name := display_name app_desktop_renamed,
      hints := hints app_desktop_renamed, ref_count := ref_count app_desktop_renamed\<rparr>
      = app_desktop_renamed"
    by (simp add: app_desktop_renamed_def app_desktop_def sample_info_def)
  with matches_iff [OF l(1,2)]
  have x: "thunar_vfs_info_matches app_desktop app_desktop_renamed"
    by simp
  have "run_sh\<lparr>display_name := display_name notes_txt,
      hints := hints notes_txt, ref_count := ref_count notes_txt\<rparr> \<noteq> notes_txt"
    by (simp add: run_sh_def notes_txt_def sample_info_def)
  with matches_iff [OF l(3,4)]
  have y: "\<not> thunar_vfs_info_matches run_sh notes_txt"
    by simp
  from l x y show ?thesis by simp
qed

text \<open>
  C5. The comparison is reflexive on live descriptors and symmetric, and it is false as
  soon as one of the type, the mode, the flags, the owner, the group, the size, the three
  times, the inode, the device, the content type or the location differs, whatever the
  other attributes are.
\<close>

theorem matches_reflexive_symmetric:
  "(0 < ref_count a \<longrightarrow> thunar_vfs_info_matches a a)
   \<and> thunar_vfs_info_matches a b = thunar_vfs_info_matches b a
   \<and> (type a \<noteq> type b \<or> mode a \<noteq> mode b \<or> flags a \<noteq> flags b
       \<or> uid a \<noteq> uid b \<or> gid a \<noteq> gid b \<or> size' a \<noteq> size' b
       \<or> atime a \<noteq> atime b \<or> mtime a \<noteq> mtime b \<or> ctime a \<noteq> ctime b
       \<or> inode a \<noteq> inode b \<or> device a \<noteq> device b
       \<or> mime_info a \<noteq> mime_info b \<or> \<not> thunar_vfs_uri_equal (uri a) (uri b)
      \<longrightarrow> \<not> thunar_vfs_info_matches a b)"
  by (auto simp: thunar_vfs_info_matches_def thunar_vfs_uri_equal_def)

theorem matches_reflexive_symmetric_witness:
  "0 < ref_count run_sh \<and> thunar_vfs_info_matches run_sh run_sh
   \<and> inode run_sh \<noteq> inode notes_txt
   \<and> \<not> thunar_vfs_info_matches run_sh notes_txt
   \<and> \<not> thunar_vfs_info_matches notes_txt run_sh"
proof -
  have l: "0 < ref_count run_sh" and i: "inode run_sh \<noteq> inode notes_txt"
    by (simp_all add: run_sh_def notes_txt_def sample_info_def)
  from matches_reflexive_symmetric [of run_sh notes_txt] l i show ?thesis
    by blast
qed

section \<open>Claims about renaming\<close>

lemma save_name_key_file:
  "fst (save_name env key_file ls name) =
     (case List.find (\<lambda>l. g_key_file_has_key env key_file ''Desktop Entry''
                            (''Name['' @ l @ '']'')) ls of
        Some l \<Rightarrow> g_key_file_set_string env key_file ''Desktop Entry''
                    (''Name['' @ l @ '']'') name
      | None \<Rightarrow> key_file)"
  by (induction ls) (simp_all add: Let_def)

lemma save_name_stop:
  "snd (save_name env key_file ls name) = [] \<longleftrightarrow>
     List.find (\<lambda>l. g_key_file_has_key env key_file ''Desktop Entry''
                      (''Name['' @ l @ '']'')) ls = None"
  by (induction ls) (simp_all add: Let_def)

lemma rename_hints:
  assumes "thunar_vfs_info_rename env info name = (r, info', calls)"
  shows "(hints info' = None \<longleftrightarrow> hints info = None)
     \<and> (thunar_vfs_mime_info_get_name (mime_info info) = ''application/x-desktop''
          \<longrightarrow> mime_info info' = mime_info info)"
  using assms
  by (auto simp: thunar_vfs_info_rename_def Let_def
      split: if_splits sum.splits option.splits prod.splits)

lemma renames_hints:
  assumes "hints info \<noteq> None \<longrightarrow>
             thunar_vfs_mime_info_get_name (mime_info info) = ''application/x-desktop''"
  shows "(hints (renames info calls) = None \<longleftrightarrow> hints info = None)
     \<and> (hints info \<noteq> None \<longrightarrow> mime_info (renames info calls) = mime_info info)"
  using assms
proof (induction calls arbitrary: info)
  case Nil
  show ?case by simp
next
  case (Cons c calls)
  obtain env name where c: "c = (env, name)" by (cases c)
  obtain r info' cs where r: "thunar_vfs_info_rename env info name = (r, info', cs)"
    by (cases "thunar_vfs_info_rename env info name")
  note h = rename_hints [OF r]
  from h Cons.prems have "hints info' \<noteq> None \<longrightarrow>
      thunar_vfs_mime_info_get_name (mime_info info') = ''application/x-desktop''"
    by auto
  from Cons.IH [OF this] h Cons.prems show ?case
    by (auto simp: c r)
qed

lemmas world_rename_defs =
  thunar_vfs_info_rename_def world_defs Let_def EEXIST_def file_type_values
  THUNAR_VFS_FILE_HINT_NAME_def

text \<open>
  C6. For a live descriptor that is not a launcher and a valid new name (valid UTF-8, not
  empty, no path separator) that converts to the encoding of file names: if the sibling
  path of that name exists, the call fails with \<^verbatim>\<open>G_FILE_ERROR_EXIST\<close>, issues no call
  that changes the file system (so no \<^verbatim>\<open>g_rename\<close>), and leaves the descriptor as it
  was.
\<close>

theorem rename_existing_target:
  assumes "0 < ref_count info" and "g_utf8_validate env name"
    and "name \<noteq> []" and "CHR ''/'' \<notin> set name"
    and "thunar_vfs_mime_info_get_name (mime_info info) \<noteq> ''application/x-desktop''"
    and "g_filename_from_utf8 env name = Inr dst_name"
    and "g_file_test_EXISTS env
           (g_build_filename env
              (g_path_get_dirname env (thunar_vfs_uri_get_path (uri info))) dst_name)"
  shows "thunar_vfs_info_rename env info name =
           (Inl (Error (FileError G_FILE_ERROR_EXIST (g_strerror env EEXIST))), info, [])"
  using assms by (simp add: thunar_vfs_info_rename_def)

theorem rename_existing_target_witness:
  "0 < ref_count run_sh \<and> g_utf8_validate world ''notes.txt''
   \<and> thunar_vfs_mime_info_get_name (mime_info run_sh) \<noteq> ''application/x-desktop''
   \<and> g_filename_from_utf8 world ''notes.txt'' = Inr ''notes.txt''
   \<and> g_file_test_EXISTS world ''/d/notes.txt''
   \<and> thunar_vfs_info_rename world run_sh ''notes.txt'' =
       (Inl (Error (FileError G_FILE_ERROR_EXIST ''File exists'')), run_sh, [])"
proof -
  have a: "0 < ref_count run_sh" "g_utf8_validate world ''notes.txt''"
    "''notes.txt'' \<noteq> []" "CHR ''/'' \<notin> set ''notes.txt''"
    "thunar_vfs_mime_info_get_name (mime_info run_sh) \<noteq> ''application/x-desktop''"
    "g_filename_from_utf8 world ''notes.txt'' = Inr ''notes.txt''"
    by (simp_all add: run_sh_def sample_info_def world_def)
  have p: "g_build_filename world
      (g_path_get_dirname world (thunar_vfs_uri_get_path (uri run_sh))) ''notes.txt''
      = ''/d/notes.txt''"
    by (simp add: run_sh_def sample_info_def world_def dirname_def)
  have e: "g_file_test_EXISTS world ''/d/notes.txt''"
    by (simp add: world_def world_nodes_def)
  have s: "g_strerror world EEXIST = ''File exists''"
    by (simp add: world_def EEXIST_def)
  from e p have "g_file_test_EXISTS world (g_build_filename world
      (g_path_get_dirname world (thunar_vfs_uri_get_path (uri run_sh))) ''notes.txt'')"
    by simp
  from rename_existing_target [OF a this] s a e show ?thesis
    by simp
qed

text \<open>
  C7. Whenever the call fails, for whatever reason (a failed check of the arguments, an
  invalid name, a launcher file that cannot be loaded or has no \<^verbatim>\<open>Desktop Entry\<close>
  group, a failure to serialise or to write, a failure to convert the name, an existing
  target, a failing \<^verbatim>\<open>g_rename\<close>), the descriptor after the call is the descriptor
  before it, field by field.
\<close>

theorem rename_failure_leaves_descriptor:
  assumes "thunar_vfs_info_rename env info name = (Inl e, info', calls)"
  shows "info' = info"
  using assms
  by (auto simp: thunar_vfs_info_rename_def Let_def
      split: if_splits sum.splits option.splits prod.splits)

theorem rename_failure_leaves_descriptor_witness:
  "fst (thunar_vfs_info_rename world run_sh ''a/b'')
     = Inl (Error (FileError G_FILE_ERROR_INVAL ''Invalid file name''))
   \<and> fst (snd (thunar_vfs_info_rename world run_sh ''a/b'')) = run_sh
   \<and> fst (thunar_vfs_info_rename world odd_desktop ''Even'')
     = Inl (Error (FileError G_FILE_ERROR_INVAL ''Invalid desktop file''))
   \<and> fst (snd (thunar_vfs_info_rename world odd_desktop ''Even'')) = odd_desktop"
proof -
  let ?r = "thunar_vfs_info_rename world run_sh ''a/b''"
  let ?s = "thunar_vfs_info_rename world odd_desktop ''Even''"
  have r: "fst ?r = Inl (Error (FileError G_FILE_ERROR_INVAL ''Invalid file name''))"
    by (simp add: thunar_vfs_info_rename_def run_sh_def sample_info_def world_def)
  have s: "fst ?s = Inl (Error (FileError G_FILE_ERROR_INVAL ''Invalid desktop file''))"
    by (simp add: thunar_vfs_info_rename_def odd_desktop_def sample_info_def world_def
        world_key_files_def)
  from r have "?r = (Inl (Error (FileError G_FILE_ERROR_INVAL ''Invalid file name'')),
      fst (snd ?r), snd (snd ?r))"
    by (metis prod.collapse)
  from rename_failure_leaves_descriptor [OF this]
  have r': "fst (snd ?r) = run_sh" .
  from s have "?s = (Inl (Error (FileError G_FILE_ERROR_INVAL ''Invalid desktop file'')),
      fst (snd ?s), snd (snd ?s))"
    by (metis prod.collapse)
  from rename_failure_leaves_descriptor [OF this]
  have s': "fst (snd ?s) = odd_desktop" .
  from r r' s s' show ?thesis by simp
qed

text \<open>
  C8. For a live launcher descriptor and a valid new name, with a file that loads and has
  the \<^verbatim>\<open>Desktop Entry\<close> group: the key that receives the name is
  \<^verbatim>\<open>Name[l]\<close> for the first language \<open>l\<close>, in the order of the language names of
  the process, whose key exists in that group, and the plain \<^verbatim>\<open>Name\<close> when there
  is none. When the key file so changed is serialised and written, the call succeeds, the
  one call issued is that write, and the name hint is replaced in a hint table that was
  already there, while a descriptor without a hint table stays without one.
\<close>

theorem rename_launcher_name_key:
  assumes "0 < ref_count info" and "g_utf8_validate env name"
    and "name \<noteq> []" and "CHR ''/'' \<notin> set name"
    and "thunar_vfs_mime_info_get_name (mime_info info) = ''application/x-desktop''"
    and "g_key_file_load_from_file env (thunar_vfs_uri_get_path (uri info)) = Inr key_file"
    and "g_key_file_has_group env key_file ''Desktop Entry''"
    and "key = (case List.find (\<lambda>l. g_key_file_has_key env key_file ''Desktop Entry''
                                  (''Name['' @ l @ '']'')) (g_get_language_names env) of
                  Some l \<Rightarrow> ''Name['' @ l @ '']''
                | None \<Rightarrow> ''Name'')"
    and "g_key_file_to_data env (g_key_file_set_string env key_file ''Desktop Entry'' key name)
           = Inr data"
    and "g_file_set_contents env (thunar_vfs_uri_get_path (uri info)) data = None"
  shows "thunar_vfs_info_rename env info name =
           (Inr (),
            (case hints info of
               None \<Rightarrow> info
             | Some h \<Rightarrow> info\<lparr>hints := Some (h[THUNAR_VFS_FILE_HINT_NAME := Some name])\<rparr>),
            [SetContents (thunar_vfs_uri_get_path (uri info)) data])"
  using assms
  by (auto simp: thunar_vfs_info_rename_def Let_def case_prod_beta save_name_key_file
      save_name_stop split: option.splits)

theorem rename_launcher_name_key_witness:
  "thunar_vfs_info_rename world app_desktop ''Neu'' =
     (Inr (), app_desktop_renamed,
      [SetContents ''/d/app.desktop'' ''Name=App;Name[fr]=Appli;Name[de]=Neu;Exec=app %F;''])
   \<and> thunar_vfs_info_rename world locked_desktop ''Neu'' =
     (Inl (Error (Propagated ''No such file or directory'')), locked_desktop, [])"
proof -
  let ?kf = "[((''Desktop Entry'', ''Name''), ''App''),
              ((''Desktop Entry'', ''Name[fr]''), ''Appli''),
              ((''Desktop Entry'', ''Name[de]''), ''Anwendung''),
              ((''Desktop Entry'', ''Exec''), ''app %F'')]"
  let ?data = "''Name=App;Name[fr]=Appli;Name[de]=Neu;Exec=app %F;''"
  have a: "0 < ref_count app_desktop" "g_utf8_validate world ''Neu''"
    "''Neu'' \<noteq> []" "CHR ''/'' \<notin> set ''Neu''"
    "thunar_vfs_mime_info_get_name (mime_info app_desktop) = ''application/x-desktop''"
    by (simp_all add: app_desktop_def sample_info_def world_def)
  have l: "g_key_file_load_from_file world (thunar_vfs_uri_get_path (uri app_desktop))
      = Inr ?kf"
    by (simp add: app_desktop_def sample_info_def world_def world_key_files_def)
  have g: "g_key_file_has_group world ?kf ''Desktop Entry''"
    by (simp add: world_def)
  have k: "''Name[de]'' =
      (case List.find (\<lambda>l. g_key_file_has_key world ?kf ''Desktop Entry''
                             (''Name['' @ l @ '']'')) (g_get_language_names world) of
         Some l \<Rightarrow> ''Name['' @ l @ '']''
       | None \<Rightarrow> ''Name'')"
    by (simp add: world_def)
  have d: "g_key_file_to_data world
      (g_key_file_set_string world ?kf ''Desktop Entry'' ''Name[de]'' ''Neu'') = Inr ?data"
    by (simp add: world_def)
  have w: "g_file_set_contents world (thunar_vfs_uri_get_path (uri app_desktop)) ?data = None"
    by (simp add: world_def)
  have h: "(case hints app_desktop of
              None \<Rightarrow> app_desktop
            | Some h \<Rightarrow> app_desktop\<lparr>hints :=
                Some (h[THUNAR_VFS_FILE_HINT_NAME := Some ''Neu''])\<rparr>) = app_desktop_renamed"
    by (simp add: app_desktop_renamed_def app_desktop_def sample_info_def
        THUNAR_VFS_FILE_HINT_NAME_def)
  have p: "thunar_vfs_uri_get_path (uri app_desktop) = ''/d/app.desktop''"
    by (simp add: app_desktop_def sample_info_def)
  from rename_launcher_name_key [OF a l g k d w] h p
  have x: "thunar_vfs_info_rename world app_desktop ''Neu'' =
     (Inr (), app_desktop_renamed, [SetContents ''/d/app.desktop'' ?data])"
    by simp
  have y: "thunar_vfs_info_rename world locked_desktop ''Neu'' =
     (Inl (Error (Propagated ''No such file or directory'')), locked_desktop, [])"
    by (simp add: thunar_vfs_info_rename_def locked_desktop_def sample_info_def world_def
        world_key_files_def)
  from x y show ?thesis by simp
qed

section \<open>Claims about the hints\<close>

text \<open>
  C10. A descriptor that the builder returns has hints exactly when it is a regular file
  of the launcher type whose file could be opened: so it has none when it is not a regular
  file, none when its content type is another one, and none when the launcher file cannot
  be opened, in which case the builder still returns the descriptor and no error. After
  any sequence of calls of the rename operation, failed or not, a descriptor that has hints
  had them when it was built, was of the launcher type then, and still is of that type.
\<close>

theorem hints_only_for_launchers:
  "(\<forall>info. thunar_vfs_info_new_for_uri env u = Inr info \<longrightarrow>
       (hints info \<noteq> None \<longleftrightarrow>
          type info = THUNAR_VFS_FILE_TYPE_REGULAR
          \<and> thunar_vfs_mime_info_get_name (mime_info info) = ''application/x-desktop''
          \<and> xfce_rc_simple_open env (thunar_vfs_uri_get_path u) \<noteq> None)
     \<and> (hints (renames info calls) \<noteq> None \<longrightarrow>
          hints info \<noteq> None
          \<and> thunar_vfs_mime_info_get_name (mime_info info) = ''application/x-desktop''
          \<and> mime_info (renames info calls) = mime_info info))
   \<and> (\<forall>lsb. lstat env (thunar_vfs_uri_get_path u) = Inr lsb
         \<and> fst (posix_attributes env (thunar_vfs_uri_get_path u) lsb)
             = THUNAR_VFS_FILE_TYPE_REGULAR
         \<and> xfce_rc_simple_open env (thunar_vfs_uri_get_path u) = None
       \<longrightarrow> (\<exists>info. thunar_vfs_info_new_for_uri env u = Inr info \<and> hints info = None))"
proof (intro conjI allI impI)
  fix info
  assume b: "thunar_vfs_info_new_for_uri env u = Inr info"
  show "hints info \<noteq> None \<longleftrightarrow>
          type info = THUNAR_VFS_FILE_TYPE_REGULAR
          \<and> thunar_vfs_mime_info_get_name (mime_info info) = ''application/x-desktop''
          \<and> xfce_rc_simple_open env (thunar_vfs_uri_get_path u) \<noteq> None"
    by (rule new_for_uri_hints [OF b])
  then have i: "hints info \<noteq> None \<longrightarrow>
      thunar_vfs_mime_info_get_name (mime_info info) = ''application/x-desktop''"
    by simp
  assume "hints (renames info calls) \<noteq> None"
  with renames_hints [OF i, of calls] i
  show "hints info \<noteq> None"
    and "thunar_vfs_mime_info_get_name (mime_info info) = ''application/x-desktop''"
    and "mime_info (renames info calls) = mime_info info"
    by simp_all
next
  fix lsb
  assume "lstat env (thunar_vfs_uri_get_path u) = Inr lsb
     \<and> fst (posix_attributes env (thunar_vfs_uri_get_path u) lsb)
         = THUNAR_VFS_FILE_TYPE_REGULAR
     \<and> xfce_rc_simple_open env (thunar_vfs_uri_get_path u) = None"
  then show "\<exists>info. thunar_vfs_info_new_for_uri env u = Inr info \<and> hints info = None"
    by (simp add: thunar_vfs_info_new_for_uri_def Let_def file_type_values
        read_desktop_hints_def)
qed

lemma world_rename_app_desktop:
  "thunar_vfs_info_rename world app_desktop ''Neu'' =
     (Inr (), app_desktop_renamed,
      [SetContents ''/d/app.desktop'' ''Name=App;Name[fr]=Appli;Name[de]=Neu;Exec=app %F;''])"
  by (simp add: world_rename_defs app_desktop_renamed_def app_desktop_def)

lemma world_rename_app_desktop_again:
  "fst (snd (thunar_vfs_info_rename world app_desktop_renamed ''a/b'')) = app_desktop_renamed"
  by (simp add: world_rename_defs app_desktop_renamed_def app_desktop_def)

theorem hints_only_for_launchers_witness:
  "thunar_vfs_info_new_for_uri world (thunar_vfs_uri_new_for_path ''/d/app.desktop'')
       = Inr app_desktop
   \<and> renames app_desktop [(world, ''Neu''), (world, ''a/b'')] = app_desktop_renamed
   \<and> hints app_desktop_renamed \<noteq> None
   \<and> hints app_desktop \<noteq> None
   \<and> mime_info app_desktop_renamed = mime_info app_desktop
   \<and> thunar_vfs_mime_info_get_name (mime_info app_desktop) = ''application/x-desktop''
   \<and> xfce_rc_simple_open world ''/d/locked.desktop'' = None
   \<and> thunar_vfs_info_new_for_uri world (thunar_vfs_uri_new_for_path ''/d/locked.desktop'')
       = Inr locked_desktop
   \<and> hints locked_desktop = None"
proof -
  let ?calls = "[(world, ''Neu''), (world, ''a/b'')]"
  let ?u = "thunar_vfs_uri_new_for_path ''/d/locked.desktop''"
  have r: "renames app_desktop ?calls = app_desktop_renamed"
    by (simp add: world_rename_app_desktop world_rename_app_desktop_again)
  have h: "hints app_desktop_renamed \<noteq> None"
    by (simp add: app_desktop_renamed_def)
  from hints_only_for_launchers [of world "thunar_vfs_uri_new_for_path ''/d/app.desktop''" ?calls]
    world_app_desktop
  have "hints (renames app_desktop ?calls) \<noteq> None \<longrightarrow>
      hints app_desktop \<noteq> None
      \<and> thunar_vfs_mime_info_get_name (mime_info app_desktop) = ''application/x-desktop''
      \<and> mime_info (renames app_desktop ?calls) = mime_info app_desktop"
    by blast
  with r h have x: "hints app_desktop \<noteq> None
      \<and> thunar_vfs_mime_info_get_name (mime_info app_desktop) = ''application/x-desktop''
      \<and> mime_info app_desktop_renamed = mime_info app_desktop"
    by simp
  have o: "xfce_rc_simple_open world ''/d/locked.desktop'' = None"
    by (simp add: world_def world_entries_def)
  have "lstat world (thunar_vfs_uri_get_path ?u) = Inr (sample_stat 0x8000 17)
     \<and> fst (posix_attributes world (thunar_vfs_uri_get_path ?u) (sample_stat 0x8000 17))
         = THUNAR_VFS_FILE_TYPE_REGULAR
     \<and> xfce_rc_simple_open world (thunar_vfs_uri_get_path ?u) = None"
    by (simp add: world_def world_nodes_def world_entries_def posix_attributes_def
        sample_stat_def S_ISLNK_def S_IFMT_def S_IFLNK_def file_type_values drop_bit_eq_div)
  with hints_only_for_launchers [of world ?u "[]"]
  have "\<exists>info. thunar_vfs_info_new_for_uri world ?u = Inr info \<and> hints info = None"
    by blast
  with world_locked_desktop have y: "hints locked_desktop = None"
    by simp
  from world_app_desktop r h x o world_locked_desktop y show ?thesis
    by simp
qed

section \<open>Claims about executing\<close>

text \<open>
  C9. For a call on a live descriptor whose command line is built without error, the one
  call issued is the spawn, and its working directory is the directory name of the path of
  the first target when targets are given, and the directory name of the path of the
  descriptor itself when none is.
\<close>

theorem execute_working_directory:
  assumes "0 < ref_count info"
    and "command_line env info uris = Inr argv"
  shows "snd (thunar_vfs_info_execute env info screen uris) =
           [Spawn (case screen of None \<Rightarrow> gdk_screen_get_default env | Some s \<Rightarrow> s)
              (g_path_get_dirname env
                 (if uris \<noteq> [] then thunar_vfs_uri_get_path (hd uris)
                  else thunar_vfs_uri_get_path (uri info)))
              argv]"
  using assms
  by (cases uris) (simp_all add: thunar_vfs_info_execute_def Let_def split: option.splits)

theorem execute_working_directory_witness:
  "0 < ref_count run_sh
   \<and> command_line world run_sh [thunar_vfs_uri_new_for_path ''/e/f.txt'']
       = Inr [[CHR 0x27] @ ''/d/run.sh'' @ [CHR 0x27], ''/e/f.txt'']
   \<and> snd (thunar_vfs_info_execute world run_sh None [thunar_vfs_uri_new_for_path ''/e/f.txt''])
       = [Spawn 0 ''/e'' [[CHR 0x27] @ ''/d/run.sh'' @ [CHR 0x27], ''/e/f.txt'']]
   \<and> command_line world run_sh [] = Inr [[CHR 0x27] @ ''/d/run.sh'' @ [CHR 0x27]]
   \<and> snd (thunar_vfs_info_execute world run_sh None [])
       = [Spawn 0 ''/d'' [[CHR 0x27] @ ''/d/run.sh'' @ [CHR 0x27]]]"
proof -
  let ?q = "[CHR 0x27] @ ''/d/run.sh'' @ [CHR 0x27]"
  let ?t = "[thunar_vfs_uri_new_for_path ''/e/f.txt'']"
  have l: "0 < ref_count run_sh"
    by (simp add: run_sh_def sample_info_def)
  have c: "command_line world run_sh ?t = Inr [?q, ''/e/f.txt'']"
    and c': "command_line world run_sh [] = Inr [?q]"
    by (simp_all add: command_line_def run_sh_def sample_info_def world_def Let_def)
  have d: "g_path_get_dirname world ''/e/f.txt'' = ''/e''"
    "g_path_get_dirname world (thunar_vfs_uri_get_path (uri run_sh)) = ''/d''"
    "gdk_screen_get_default world = 0"
    by (simp_all add: world_def dirname_def run_sh_def sample_info_def)
  from execute_working_directory [OF l c, of None] d
  have x: "snd (thunar_vfs_info_execute world run_sh None ?t)
      = [Spawn 0 ''/e'' [?q, ''/e/f.txt'']]"
    by simp
  from execute_working_directory [OF l c', of None] d
  have y: "snd (thunar_vfs_info_execute world run_sh None []) = [Spawn 0 ''/d'' [?q]]"
    by simp
  from l c c' x y show ?thesis
    by simp
qed

end
